theory Spec2Isabelle
  imports Main "HOL-Library.Sublist" "HOL-Library.Extended_Nat"
begin

section \<open>The string matchers of \<^verbatim>\<open>osmium/util/string_matcher.hpp\<close>\<close>

text \<open>
  The header defines \<^verbatim>\<open>osmium::StringMatcher\<close>, a variant over seven matcher classes,
  each with \<^verbatim>\<open>bool match(const char*) const noexcept\<close> and a \<^verbatim>\<open>print\<close> into an output
  stream. The stored texts are \<^verbatim>\<open>std::string\<close> values, which carry their length and may
  hold any byte, the NUL byte too; the text to test arrives as a \<^verbatim>\<open>const char*\<close>, which the
  C and C++ library functions read up to the first NUL byte.
\<close>

subsection \<open>Bytes, \<^verbatim>\<open>std::string\<close> and \<^verbatim>\<open>const char*\<close>\<close>

text \<open>
  A \<^verbatim>\<open>std::string\<close> is the list of its \<^verbatim>\<open>size()\<close> bytes. A \<^verbatim>\<open>const char*\<close> is the list of
  the bytes stored from the pointer on, terminator included; a list without a NUL byte is
  read as if the terminator followed it.
\<close>

type_synonym cstring = string

definition NUL :: char where
  "NUL = CHR 0x00"

text \<open>\<^verbatim>\<open>std::string::c_str()\<close>: the bytes of the string, followed by a NUL byte.\<close>

definition c_str :: "string \<Rightarrow> cstring" where
  "c_str s = s @ [NUL]"

text \<open>\<^verbatim>\<open>std::strlen\<close>, which is also \<^verbatim>\<open>std::char_traits<char>::length\<close>.\<close>

definition strlen :: "cstring \<Rightarrow> nat" where
  "strlen p = length (takeWhile (\<lambda>c. c \<noteq> NUL) p)"

text \<open>The constructor \<^verbatim>\<open>std::string(const char*)\<close> copies the \<^verbatim>\<open>strlen\<close> bytes before the terminator.\<close>

definition string_of_cstr :: "cstring \<Rightarrow> string" where
  "string_of_cstr p = take (strlen p) p"

text \<open>
  \<^verbatim>\<open>std::strcmp\<close>: the sign of the difference of the first two bytes that differ, read as
  \<^verbatim>\<open>unsigned char\<close>, and 0 when both strings end together.
\<close>

fun strcmp :: "cstring \<Rightarrow> cstring \<Rightarrow> int" where
  "strcmp (a # as) (b # bs) =
     (if a \<noteq> b then (if (of_char a :: nat) < of_char b then - 1 else 1)
      else if a = NUL then 0
      else strcmp as bs)"
| "strcmp [] (b # bs) = (if b = NUL then 0 else - 1)"
| "strcmp (a # as) [] = (if a = NUL then 0 else 1)"
| "strcmp [] [] = 0"

text \<open>
  \<^verbatim>\<open>std::strstr(haystack, needle)\<close>: the offset of the first occurrence of the needle in the
  haystack (the pointer returned is the haystack plus that offset), \<open>None\<close> for \<^verbatim>\<open>nullptr\<close>.
\<close>

fun strstr :: "cstring \<Rightarrow> cstring \<Rightarrow> nat option" where
  "strstr [] needle = (if string_of_cstr needle = [] then Some 0 else None)"
| "strstr (c # cs) needle =
     (if prefix (string_of_cstr needle) (string_of_cstr (c # cs)) then Some 0
      else if c = NUL then None
      else map_option Suc (strstr cs needle))"

text \<open>
  The exceptions of the library calls, and \<^verbatim>\<open>std::terminate\<close>, which ends the program
  when an exception leaves a \<^verbatim>\<open>noexcept\<close> function. Memory exhaustion is not modelled.
\<close>

datatype error = out_of_range | regex_error | terminate

definition noexcept :: "error + 'a \<Rightarrow> error + 'a" where
  "noexcept r = (case r of Inl e \<Rightarrow> Inl terminate | Inr v \<Rightarrow> Inr v)"

text \<open>
  \<^verbatim>\<open>std::string::npos\<close> is the greatest value of \<^verbatim>\<open>size_type\<close>, which no length reaches: a count
  is an \<^typ>\<open>enat\<close>, and \<^verbatim>\<open>npos\<close> is \<open>\<infinity>\<close>. \<open>substr_len\<close> is the length
  \<^verbatim>\<open>min(count, size - pos)\<close> of the substring that \<^verbatim>\<open>pos\<close> and \<^verbatim>\<open>count\<close> select.
\<close>

definition npos :: enat where
  "npos = \<infinity>"

definition substr_len :: "nat \<Rightarrow> nat \<Rightarrow> enat \<Rightarrow> nat" where
  "substr_len sz pos count = (case count of enat n \<Rightarrow> min n (sz - pos) | \<infinity> \<Rightarrow> sz - pos)"

text \<open>\<^verbatim>\<open>std::char_traits<char>::compare(s1, s2, n)\<close>, on the first \<open>n\<close> bytes of both.\<close>

fun traits_compare :: "string \<Rightarrow> string \<Rightarrow> nat \<Rightarrow> int" where
  "traits_compare (a # as) (b # bs) (Suc n) =
     (if (of_char a :: nat) < of_char b then - 1
      else if (of_char b :: nat) < of_char a then 1
      else traits_compare as bs n)"
| "traits_compare _ _ _ = 0"

text \<open>
  \<^verbatim>\<open>s.compare(pos1, count1, str, pos2, count2)\<close> of \<^verbatim>\<open>std::string\<close>: compares the substring
  \<^verbatim>\<open>[pos1, pos1 + count1)\<close> of \<open>s\<close> with the substring \<^verbatim>\<open>[pos2, pos2 + count2)\<close> of \<open>str\<close>, both
  cut at the end of their string; throws \<^verbatim>\<open>std::out_of_range\<close> when a position is beyond
  the size.
\<close>

definition string_compare :: "string \<Rightarrow> nat \<Rightarrow> enat \<Rightarrow> string \<Rightarrow> nat \<Rightarrow> enat \<Rightarrow> error + int" where
  "string_compare s pos1 count1 str pos2 count2 =
     (if length s < pos1 \<or> length str < pos2 then Inl out_of_range
      else let len1 = substr_len (length s) pos1 count1;
               len2 = substr_len (length str) pos2 count2;
               r = traits_compare (drop pos1 s) (drop pos2 str) (min len1 len2)
           in Inr (if r \<noteq> 0 then r
                   else if len1 < len2 then - 1
                   else if len2 < len1 then 1
                   else 0))"

text \<open>
  \<^verbatim>\<open>operator==(const std::string&, const char*)\<close>: the string, with its size, against the
  \<^verbatim>\<open>strlen\<close> bytes at the pointer.
\<close>

definition string_eq_cstr :: "string \<Rightarrow> cstring \<Rightarrow> bool" where
  "string_eq_cstr s p = (s = string_of_cstr p)"

text \<open>\<^verbatim>\<open>std::any_of\<close> over a range.\<close>

fun any_of :: "('a \<Rightarrow> bool) \<Rightarrow> 'a list \<Rightarrow> bool" where
  "any_of p [] = False"
| "any_of p (x # xs) = (if p x then True else any_of p xs)"

text \<open>
  A compiled \<^verbatim>\<open>std::regex\<close> is opaque to the header. It is modelled by what
  \<^verbatim>\<open>std::regex_search\<close> answers for it on each subject text: a result, or the \<^verbatim>\<open>regex_error\<close>
  that the search throws. \<^verbatim>\<open>std::regex_search(const char*, const std::regex&)\<close> searches
  the \<^verbatim>\<open>strlen\<close> bytes at the pointer.
\<close>

type_synonym std_regex = "string \<Rightarrow> error + bool"

definition regex_search :: "cstring \<Rightarrow> std_regex \<Rightarrow> error + bool" where
  "regex_search str re = re (string_of_cstr str)"

subsection \<open>The matcher classes\<close>

text \<open>Each class is modelled by its one data member; \<open>match\<close> and \<open>print\<close> take it first.\<close>

definition always_false_match :: "cstring \<Rightarrow> error + bool" where
  "always_false_match test_string = Inr False"

definition always_true_match :: "cstring \<Rightarrow> error + bool" where
  "always_true_match test_string = Inr True"

definition equal_match :: "string \<Rightarrow> cstring \<Rightarrow> error + bool" where
  "equal_match m_str test_string = Inr (strcmp (c_str m_str) test_string = 0)"

definition prefix_match :: "string \<Rightarrow> cstring \<Rightarrow> error + bool" where
  "prefix_match m_str test_string =
     noexcept (case string_compare m_str 0 npos (string_of_cstr test_string) 0 (enat (length m_str)) of
                 Inl e \<Rightarrow> Inl e
               | Inr r \<Rightarrow> Inr (r = 0))"

definition substring_match :: "string \<Rightarrow> cstring \<Rightarrow> error + bool" where
  "substring_match m_str test_string = Inr (strstr test_string (c_str m_str) \<noteq> None)"

definition regex_match :: "std_regex \<Rightarrow> cstring \<Rightarrow> error + bool" where
  "regex_match m_regex test_string = noexcept (regex_search test_string m_regex)"

definition list_default :: "string list" where
  "list_default = []"

definition list_of_strings :: "string list \<Rightarrow> string list" where
  "list_of_strings strings = strings"

text \<open>
  The two overloads of \<^verbatim>\<open>list::add_string\<close>; both return \<^verbatim>\<open>*this\<close>, the list after the
  append.
\<close>

definition list_add_string_cstr :: "string list \<Rightarrow> cstring \<Rightarrow> string list" where
  "list_add_string_cstr m_strings str = m_strings @ [string_of_cstr str]"

definition list_add_string :: "string list \<Rightarrow> string \<Rightarrow> string list" where
  "list_add_string m_strings str = m_strings @ [str]"

definition list_match :: "string list \<Rightarrow> cstring \<Rightarrow> error + bool" where
  "list_match m_strings test_string = Inr (any_of (\<lambda>s. string_eq_cstr s test_string) m_strings)"

text \<open>
  An output stream is the text written to it so far, in its initial formatting state (no
  field width) and with no error flag set; \<open>print\<close> returns the stream after the writes.
\<close>

type_synonym ostream = string

definition always_false_print :: "ostream \<Rightarrow> ostream" where
  "always_false_print out = out @ ''always_false''"

definition always_true_print :: "ostream \<Rightarrow> ostream" where
  "always_true_print out = out @ ''always_true''"

definition equal_print :: "string \<Rightarrow> ostream \<Rightarrow> ostream" where
  "equal_print m_str out = out @ ''equal['' @ m_str @ '']''"

definition prefix_print :: "string \<Rightarrow> ostream \<Rightarrow> ostream" where
  "prefix_print m_str out = out @ ''prefix['' @ m_str @ '']''"

definition substring_print :: "string \<Rightarrow> ostream \<Rightarrow> ostream" where
  "substring_print m_str out = out @ ''substring['' @ m_str @ '']''"

definition regex_print :: "std_regex \<Rightarrow> ostream \<Rightarrow> ostream" where
  "regex_print m_regex out = out @ ''regex''"

definition list_print :: "string list \<Rightarrow> ostream \<Rightarrow> ostream" where
  "list_print m_strings out =
     foldl (\<lambda>out s. out @ ''['' @ s @ '']'') (out @ ''list['') m_strings @ '']''"

subsection \<open>The variant and its visitors\<close>

datatype matcher_type =
    Always_false
  | Always_true
  | Equal string
  | Prefix string
  | Substring string
  | Regex std_regex
  | List "string list"

fun match_visitor :: "cstring \<Rightarrow> matcher_type \<Rightarrow> error + bool" where
  "match_visitor m_str Always_false = always_false_match m_str"
| "match_visitor m_str Always_true = always_true_match m_str"
| "match_visitor m_str (Equal t) = equal_match t m_str"
| "match_visitor m_str (Prefix t) = prefix_match t m_str"
| "match_visitor m_str (Substring t) = substring_match t m_str"
| "match_visitor m_str (Regex t) = regex_match t m_str"
| "match_visitor m_str (List t) = list_match t m_str"

fun print_visitor :: "ostream \<Rightarrow> matcher_type \<Rightarrow> ostream" where
  "print_visitor m_out Always_false = always_false_print m_out"
| "print_visitor m_out Always_true = always_true_print m_out"
| "print_visitor m_out (Equal t) = equal_print t m_out"
| "print_visitor m_out (Prefix t) = prefix_print t m_out"
| "print_visitor m_out (Substring t) = substring_print t m_out"
| "print_visitor m_out (Regex t) = regex_print t m_out"
| "print_visitor m_out (List t) = list_print t m_out"

subsection \<open>\<^verbatim>\<open>StringMatcher\<close>: constructors, \<^verbatim>\<open>operator()\<close> and \<^verbatim>\<open>print\<close>\<close>

text \<open>A \<^verbatim>\<open>StringMatcher\<close> is its one member \<^verbatim>\<open>m_matcher\<close>.\<close>

definition StringMatcher_default :: matcher_type where
  "StringMatcher_default = Always_false"

definition StringMatcher_of_bool :: "bool \<Rightarrow> matcher_type" where
  "StringMatcher_of_bool result =
     (let m_matcher = Always_false in if result then Always_true else m_matcher)"

definition StringMatcher_of_cstr :: "cstring \<Rightarrow> matcher_type" where
  "StringMatcher_of_cstr str = Equal (string_of_cstr str)"

definition StringMatcher_of_string :: "string \<Rightarrow> matcher_type" where
  "StringMatcher_of_string str = Equal str"

definition StringMatcher_of_regex :: "std_regex \<Rightarrow> matcher_type" where
  "StringMatcher_of_regex aregex = Regex aregex"

definition StringMatcher_of_strings :: "string list \<Rightarrow> matcher_type" where
  "StringMatcher_of_strings strings = List (list_of_strings strings)"

text \<open>\<^verbatim>\<open>operator()(const char*)\<close> and \<^verbatim>\<open>operator()(const std::string&)\<close>.\<close>

definition StringMatcher_call :: "matcher_type \<Rightarrow> cstring \<Rightarrow> error + bool" where
  "StringMatcher_call m_matcher str = match_visitor str m_matcher"

definition StringMatcher_call_string :: "matcher_type \<Rightarrow> string \<Rightarrow> error + bool" where
  "StringMatcher_call_string m_matcher str = StringMatcher_call m_matcher (c_str str)"

definition StringMatcher_print :: "matcher_type \<Rightarrow> ostream \<Rightarrow> ostream" where
  "StringMatcher_print m_matcher out = print_visitor out m_matcher"

section \<open>What the library calls compute\<close>

text \<open>Every read through a \<^verbatim>\<open>const char*\<close> sees the bytes before the first NUL byte only.\<close>

lemma string_of_cstr_eq: "string_of_cstr p = takeWhile (\<lambda>c. c \<noteq> NUL) p"
  unfolding string_of_cstr_def strlen_def by (rule takeWhile_eq_take [symmetric])

lemma takeWhile_c_str: "takeWhile (\<lambda>c. c \<noteq> NUL) (c_str s) = takeWhile (\<lambda>c. c \<noteq> NUL) s"
  by (induction s) (simp_all add: c_str_def)

lemma string_of_cstr_c_str: "string_of_cstr (c_str s) = takeWhile (\<lambda>c. c \<noteq> NUL) s"
  by (simp add: string_of_cstr_eq takeWhile_c_str)

lemma takeWhile_no_NUL: "NUL \<notin> set s \<Longrightarrow> takeWhile (\<lambda>c. c \<noteq> NUL) s = s"
  by (rule takeWhile_eq_all_conv [THEN iffD2]) blast

lemma takeWhile_append_no_NUL:
  "NUL \<notin> set a \<Longrightarrow> takeWhile (\<lambda>c. c \<noteq> NUL) (a @ b) = a @ takeWhile (\<lambda>c. c \<noteq> NUL) b"
  by (rule takeWhile_append2) blast

lemma prefix_takeWhile_append: "prefix (takeWhile P xs) (takeWhile P (xs @ ys))"
  by (induction xs) simp_all

lemma strcmp_zero_iff: "strcmp a b = 0 \<longleftrightarrow> string_of_cstr a = string_of_cstr b"
  by (induction a b rule: strcmp.induct) (auto simp: string_of_cstr_eq)

lemma strstr_iff: "strstr h n \<noteq> None \<longleftrightarrow> sublist (string_of_cstr n) (string_of_cstr h)"
  by (induction h n rule: strstr.induct) (auto simp: string_of_cstr_eq sublist_Cons_right)

lemma traits_compare_zero_iff:
  "n \<le> length a \<Longrightarrow> n \<le> length b \<Longrightarrow> traits_compare a b n = 0 \<longleftrightarrow> take n a = take n b"
  by (induction a b n rule: traits_compare.induct) auto

lemma any_of_iff: "any_of p xs \<longleftrightarrow> (\<exists>x\<in>set xs. p x)"
  by (induction xs) auto

lemma prefix_iff_take: "prefix s str \<longleftrightarrow> length s \<le> length str \<and> take (length s) str = s"
proof
  assume "prefix s str"
  then obtain zs where "str = s @ zs" by (auto simp: prefix_def)
  then show "length s \<le> length str \<and> take (length s) str = s" by simp
next
  assume "length s \<le> length str \<and> take (length s) str = s"
  then have "str = s @ drop (length s) str"
    by (metis append_take_drop_id)
  then show "prefix s str" by (metis prefixI)
qed

text \<open>
  The call of \<^verbatim>\<open>compare\<close> in \<^verbatim>\<open>prefix::match\<close> starts at position 0 in both strings, so it
  never throws, and it returns 0 exactly when the stored string is a prefix of the other.
\<close>

lemma string_compare_prefix:
  "\<exists>r. string_compare s 0 npos str 0 (enat (length s)) = Inr r \<and> (r = 0 \<longleftrightarrow> prefix s str)"
proof (cases "length s \<le> length str")
  case True
  have "traits_compare s str (length s) = 0 \<longleftrightarrow> take (length s) s = take (length s) str"
    using True by (intro traits_compare_zero_iff) simp_all
  then have "traits_compare s str (length s) = 0 \<longleftrightarrow> take (length s) str = s"
    by auto
  with True show ?thesis
    by (simp add: string_compare_def npos_def substr_len_def Let_def prefix_iff_take min_absorb1)
next
  case False
  then show ?thesis
    by (auto simp: string_compare_def npos_def substr_len_def Let_def prefix_iff_take)
qed

section \<open>What each matcher class decides\<close>

lemma equal_match_eq:
  "equal_match m_str t = Inr (string_of_cstr t = takeWhile (\<lambda>c. c \<noteq> NUL) m_str)"
  by (auto simp: equal_match_def strcmp_zero_iff string_of_cstr_c_str)

lemma prefix_match_eq: "prefix_match m_str t = Inr (prefix m_str (string_of_cstr t))"
proof -
  obtain r where "string_compare m_str 0 npos (string_of_cstr t) 0 (enat (length m_str)) = Inr r"
    and "r = 0 \<longleftrightarrow> prefix m_str (string_of_cstr t)"
    using string_compare_prefix by blast
  then show ?thesis by (simp add: prefix_match_def noexcept_def)
qed

lemma substring_match_eq:
  "substring_match m_str t = Inr (sublist (takeWhile (\<lambda>c. c \<noteq> NUL) m_str) (string_of_cstr t))"
  by (simp only: substring_match_def strstr_iff string_of_cstr_c_str)

lemma regex_match_eq: "regex_match re t = noexcept (re (string_of_cstr t))"
  by (simp add: regex_match_def regex_search_def)

lemma list_match_eq: "list_match m_strings t = Inr (string_of_cstr t \<in> set m_strings)"
  by (auto simp: list_match_def any_of_iff string_eq_cstr_def)

lemma match_visitor_cong:
  "string_of_cstr p = string_of_cstr q \<Longrightarrow> match_visitor p m = match_visitor q m"
  by (cases m)
    (simp_all add: always_false_match_def always_true_match_def equal_match_eq prefix_match_eq
      substring_match_eq regex_match_eq list_match_eq)

text \<open>
  The two overloads of \<^verbatim>\<open>operator()\<close> agree: a call with a \<^verbatim>\<open>const char*\<close> gives what the
  call with the \<^verbatim>\<open>std::string\<close> built from that pointer gives.
\<close>

lemma StringMatcher_call_overloads:
  "StringMatcher_call m p = StringMatcher_call_string m (string_of_cstr p)"
  unfolding StringMatcher_call_string_def StringMatcher_call_def
  by (rule match_visitor_cong) (simp add: string_of_cstr_eq takeWhile_c_str)

text \<open>Only the regex matcher can end the program; the other six always return.\<close>

lemma match_visitor_total:
  "(\<forall>re. m \<noteq> Regex re) \<Longrightarrow> \<exists>b. match_visitor p m = Inr b"
  by (cases m)
    (auto simp: always_false_match_def always_true_match_def equal_match_eq prefix_match_eq
      substring_match_eq list_match_eq)

lemma foldl_brackets:
  "foldl (\<lambda>out s. out @ ''['' @ s @ '']'') acc vs = acc @ concat (map (\<lambda>v. ''['' @ v @ '']'') vs)"
  by (induction vs arbitrary: acc) simp_all

lemma list_print_eq:
  "list_print vs out = out @ ''list['' @ concat (map (\<lambda>v. ''['' @ v @ '']'') vs) @ '']''"
  by (simp only: list_print_def foldl_brackets append_assoc)

section \<open>The claims\<close>

subsection \<open>Exact match\<close>




subsection \<open>Prefix match\<close>

text \<open>
  Claim C2, as the code has it. A matcher holding \<open>Prefix p\<close> answers true for the input \<open>s\<close>
  exactly when \<open>p\<close>, all of it, is a prefix of the bytes of \<open>s\<close> before its first NUL byte. So
  when \<open>p\<close> holds no NUL byte the input \<open>p @ s'\<close> matches for every suffix \<open>s'\<close>, the empty one
  too, and the empty prefix matches every input.
\<close>

theorem prefix_match_c_string_prefix:
  "StringMatcher_call_string (Prefix p) s = Inr (prefix p (takeWhile (\<lambda>c. c \<noteq> NUL) s))
   \<and> (NUL \<notin> set p \<longrightarrow> StringMatcher_call_string (Prefix p) (p @ s') = Inr True)
   \<and> StringMatcher_call_string (Prefix []) s = Inr True"
  by (simp add: StringMatcher_call_string_def StringMatcher_call_def prefix_match_eq
      string_of_cstr_c_str takeWhile_append_no_NUL)

theorem prefix_match_c_string_prefix_witness:
  "NUL \<notin> set ''foot''
   \<and> StringMatcher_call_string (Prefix ''foot'') (''foot'' @ ''way'') = Inr True
   \<and> StringMatcher_call_string (Prefix ''foot'') ''sidewalk'' = Inr False"
  using prefix_match_c_string_prefix [where p = "''foot''" and s = "''sidewalk''" and s' = "''way''"]
  by (simp add: NUL_def)

text \<open>
  C2 as stated fails on a stored prefix with a NUL byte inside: the input that begins with
  the three bytes \<open>a\<close>, NUL, \<open>b\<close> is not matched by the prefix matcher holding them.
\<close>

theorem prefix_match_embedded_NUL_counterexample:
  "StringMatcher_call_string (Prefix [CHR ''a'', NUL, CHR ''b'']) ([CHR ''a'', NUL, CHR ''b''] @ ''c'')
     = Inr False
   \<and> prefix [CHR ''a'', NUL, CHR ''b''] ([CHR ''a'', NUL, CHR ''b''] @ ''c'')"
  by (simp add: StringMatcher_call_string_def StringMatcher_call_def prefix_match_eq
      string_of_cstr_c_str NUL_def)

subsection \<open>Substring match\<close>

text \<open>
  Claim C3, as the code has it. \<^verbatim>\<open>substring::match\<close> searches with \<^verbatim>\<open>strstr\<close>, so a matcher
  holding \<open>Substring sub\<close> answers true for the input \<open>s\<close> exactly when the bytes of \<open>sub\<close>
  before its first NUL byte occur, as one block, within the bytes of \<open>s\<close> before its first NUL
  byte. So the input \<open>a @ sub @ b\<close> matches whenever \<open>a\<close> holds no NUL byte, and the empty
  substring matches every input.
\<close>

theorem substring_match_c_string_sublist:
  "StringMatcher_call_string (Substring sub) s
     = Inr (sublist (takeWhile (\<lambda>c. c \<noteq> NUL) sub) (takeWhile (\<lambda>c. c \<noteq> NUL) s))
   \<and> (NUL \<notin> set a \<longrightarrow> StringMatcher_call_string (Substring sub) (a @ sub @ b) = Inr True)
   \<and> StringMatcher_call_string (Substring []) s = Inr True"
proof -
  have eq: "StringMatcher_call_string (Substring sub) t
     = Inr (sublist (takeWhile (\<lambda>c. c \<noteq> NUL) sub) (takeWhile (\<lambda>c. c \<noteq> NUL) t))" for t
    by (simp add: StringMatcher_call_string_def StringMatcher_call_def substring_match_eq
        string_of_cstr_c_str)
  have found: "sublist (takeWhile (\<lambda>c. c \<noteq> NUL) sub) (takeWhile (\<lambda>c. c \<noteq> NUL) (a @ sub @ b))"
    if "NUL \<notin> set a"
  proof -
    obtain zs where zs:
      "takeWhile (\<lambda>c. c \<noteq> NUL) (sub @ b) = takeWhile (\<lambda>c. c \<noteq> NUL) sub @ zs"
      using prefix_takeWhile_append [of "\<lambda>c. c \<noteq> NUL" sub b] by (auto simp: prefix_def)
    from that
    have "takeWhile (\<lambda>c. c \<noteq> NUL) (a @ sub @ b) = a @ takeWhile (\<lambda>c. c \<noteq> NUL) (sub @ b)"
      by (rule takeWhile_append_no_NUL)
    with zs show ?thesis by (simp add: sublist_def) blast
  qed
  have "StringMatcher_call_string (Substring []) s = Inr True"
    by (simp add: StringMatcher_call_string_def StringMatcher_call_def substring_match_eq)
  with found show ?thesis by (simp add: eq)
qed

theorem substring_match_c_string_sublist_witness:
  "NUL \<notin> set ''foot''
   \<and> StringMatcher_call_string (Substring ''way'') (''foot'' @ ''way'' @ ''s'') = Inr True
   \<and> StringMatcher_call_string (Substring ''way'') ''road'' = Inr False"
  using substring_match_c_string_sublist
    [where sub = "''way''" and s = "''road''" and a = "''foot''" and b = "''s''"]
  by (simp add: NUL_def sublist_Cons_right)

text \<open>
  C3 as stated fails on an input with a NUL byte before the occurrence: the input of the
  two bytes NUL, \<open>b\<close> holds \<open>b\<close>, and the substring matcher for \<open>b\<close> does not match it.
\<close>

theorem substring_match_embedded_NUL_counterexample:
  "StringMatcher_call_string (Substring ''b'') ([NUL] @ ''b'' @ []) = Inr False"
  by (simp add: StringMatcher_call_string_def StringMatcher_call_def substring_match_eq
      string_of_cstr_c_str NUL_def)

subsection \<open>List match\<close>

text \<open>
  Claim C4, as the code has it. A matcher holding \<open>List vs\<close> answers true for the input \<open>x\<close>
  exactly when the bytes of \<open>x\<close> before its first NUL byte are, as a whole, a member of \<open>vs\<close>.
  When \<open>x\<close> holds no NUL byte, it answers true exactly when \<open>x\<close> is a member of \<open>vs\<close>, and
  false when \<open>x\<close> equals no member.
\<close>

theorem list_match_c_string_member:
  "StringMatcher_call_string (List vs) x = Inr (takeWhile (\<lambda>c. c \<noteq> NUL) x \<in> set vs)
   \<and> (NUL \<notin> set x \<longrightarrow> StringMatcher_call_string (List vs) x = Inr (x \<in> set vs))"
  by (simp add: StringMatcher_call_string_def StringMatcher_call_def list_match_eq
      string_of_cstr_c_str takeWhile_no_NUL)

theorem list_match_c_string_member_witness:
  "NUL \<notin> set ''secondary'' \<and> NUL \<notin> set ''residential''
   \<and> StringMatcher_call_string (List [''primary'', ''secondary'', ''tertiary'']) ''secondary''
       = Inr True
   \<and> StringMatcher_call_string (List [''primary'', ''secondary'', ''tertiary'']) ''residential''
       = Inr False"
  using list_match_c_string_member
      [where vs = "[''primary'', ''secondary'', ''tertiary'']" and x = "''secondary''"]
    list_match_c_string_member
      [where vs = "[''primary'', ''secondary'', ''tertiary'']" and x = "''residential''"]
  by (simp add: NUL_def)

text \<open>
  C4 as stated fails on an input with a NUL byte inside: the list matcher for \<open>a\<close> matches
  the input of the three bytes \<open>a\<close>, NUL, \<open>b\<close>, which equals no member of the list.
\<close>

theorem list_match_embedded_NUL_counterexample:
  "StringMatcher_call_string (List [''a'']) [CHR ''a'', NUL, CHR ''b''] = Inr True
   \<and> [CHR ''a'', NUL, CHR ''b''] \<notin> set [''a'']"
  by (simp add: StringMatcher_call_string_def StringMatcher_call_def list_match_eq
      string_of_cstr_c_str NUL_def)

subsection \<open>Appending to a list matcher\<close>

text \<open>
  The texts a list holds are kept by every later append, through either overload.
\<close>

lemma add_strings_keep_member:
  "x \<in> set l \<Longrightarrow>
   x \<in> set (foldl (\<lambda>l a. case a of Inl z \<Rightarrow> list_add_string l z
                                   | Inr q \<Rightarrow> list_add_string_cstr l q) l adds)"
  by (induction adds arbitrary: l)
    (auto simp: list_add_string_def list_add_string_cstr_def split: sum.splits)

text \<open>
  Claim C6, as the code has it. \<^verbatim>\<open>add_string\<close> returns the list after the append: the
  texts it held, in their order, followed by the new one, so calls chain. The list returned
  matches an input exactly when the list before matched it or the input is the new text,
  so what matched before still matches. After \<^verbatim>\<open>add_string(p)\<close> with a \<^verbatim>\<open>const char*\<close> the
  list matches \<open>p\<close>, whatever it held before; after \<^verbatim>\<open>add_string(z)\<close> with a \<^verbatim>\<open>std::string\<close>
  that holds no NUL byte the list matches \<open>z\<close>. Both stay true after any number of further
  appends, through either overload.
\<close>

theorem add_string_then_match:
  "list_add_string_cstr l p = l @ [string_of_cstr p]
   \<and> list_add_string l z = l @ [z]
   \<and> list_match (list_add_string_cstr l p) t
       = Inr (string_of_cstr t \<in> set l \<or> string_of_cstr t = string_of_cstr p)
   \<and> list_match (list_add_string l z) t
       = Inr (string_of_cstr t \<in> set l \<or> string_of_cstr t = z)
   \<and> list_match (list_add_string_cstr l p) p = Inr True
   \<and> (NUL \<notin> set z \<longrightarrow> list_match (list_add_string l z) (c_str z) = Inr True)
   \<and> (list_match l t = Inr True \<longrightarrow>
        list_match (list_add_string_cstr l p) t = Inr True
        \<and> list_match (list_add_string l z) t = Inr True)
   \<and> list_match
        (foldl (\<lambda>l a. case a of Inl z \<Rightarrow> list_add_string l z
                                | Inr q \<Rightarrow> list_add_string_cstr l q)
           (list_add_string_cstr l p) adds) p = Inr True
   \<and> (NUL \<notin> set z \<longrightarrow>
        list_match
          (foldl (\<lambda>l a. case a of Inl z \<Rightarrow> list_add_string l z
                                  | Inr q \<Rightarrow> list_add_string_cstr l q)
             (list_add_string l z) adds) (c_str z) = Inr True)"
proof -
  have kept_p: "string_of_cstr p \<in> set (foldl (\<lambda>l a. case a of Inl z \<Rightarrow> list_add_string l z
                                | Inr q \<Rightarrow> list_add_string_cstr l q)
           (list_add_string_cstr l p) adds)"
    by (rule add_strings_keep_member) (simp add: list_add_string_cstr_def)
  have kept_z: "z \<in> set (foldl (\<lambda>l a. case a of Inl z \<Rightarrow> list_add_string l z
                                | Inr q \<Rightarrow> list_add_string_cstr l q)
           (list_add_string l z) adds)"
    by (rule add_strings_keep_member) (simp add: list_add_string_def)
  have one: "list_add_string_cstr l p = l @ [string_of_cstr p] \<and> list_add_string l z = l @ [z]"
    by (simp add: list_add_string_cstr_def list_add_string_def)
  have two: "list_match (list_add_string_cstr l p) t
       = Inr (string_of_cstr t \<in> set l \<or> string_of_cstr t = string_of_cstr p)
     \<and> list_match (list_add_string l z) t
       = Inr (string_of_cstr t \<in> set l \<or> string_of_cstr t = z)"
    by (auto simp: list_match_eq list_add_string_cstr_def list_add_string_def)
  have three: "list_match (list_add_string_cstr l p) p = Inr True
     \<and> (NUL \<notin> set z \<longrightarrow> list_match (list_add_string l z) (c_str z) = Inr True)"
    by (simp add: list_match_eq list_add_string_cstr_def list_add_string_def
        string_of_cstr_c_str takeWhile_no_NUL)
  have four: "list_match l t = Inr True \<longrightarrow>
        list_match (list_add_string_cstr l p) t = Inr True
        \<and> list_match (list_add_string l z) t = Inr True"
    by (simp add: list_match_eq list_add_string_cstr_def list_add_string_def)
  have five: "list_match
        (foldl (\<lambda>l a. case a of Inl z \<Rightarrow> list_add_string l z
                                | Inr q \<Rightarrow> list_add_string_cstr l q)
           (list_add_string_cstr l p) adds) p = Inr True"
    using kept_p by (simp add: list_match_eq)
  have six: "NUL \<notin> set z \<longrightarrow>
        list_match
          (foldl (\<lambda>l a. case a of Inl z \<Rightarrow> list_add_string l z
                                  | Inr q \<Rightarrow> list_add_string_cstr l q)
             (list_add_string l z) adds) (c_str z) = Inr True"
    using kept_z by (simp add: list_match_eq string_of_cstr_c_str takeWhile_no_NUL)
  from one two three four five six show ?thesis by blast
qed

theorem add_string_then_match_witness:
  "NUL \<notin> set ''z''
   \<and> list_match [''a''] (c_str ''a'') = Inr True
   \<and> list_match (list_add_string [''a''] ''z'') (c_str ''z'') = Inr True
   \<and> list_match (list_add_string [''a''] ''z'') (c_str ''a'') = Inr True
   \<and> list_match (list_add_string_cstr [''a''] (c_str ''z'')) (c_str ''a'') = Inr True
   \<and> list_match
        (list_add_string (list_add_string_cstr (list_add_string [''a''] ''z'') (c_str ''b'')) ''c'')
        (c_str ''z'') = Inr True"
proof -
  have h: "list_match [''a''] (c_str ''a'') = Inr True"
    by (simp add: list_match_eq string_of_cstr_c_str NUL_def)
  have n: "NUL \<notin> set ''z''"
    by (simp add: NUL_def)
  note inst = add_string_then_match [where l = "[''a'']" and z = "''z''" and p = "c_str ''z''"
        and t = "c_str ''a''" and adds = "[Inr (c_str ''b''), Inl ''c'']"]
  from inst h have a: "list_match (list_add_string [''a''] ''z'') (c_str ''a'') = Inr True"
    and b: "list_match (list_add_string_cstr [''a''] (c_str ''z'')) (c_str ''a'') = Inr True"
    by blast+
  from inst n have c: "list_match (list_add_string [''a''] ''z'') (c_str ''z'') = Inr True"
    by blast
  from inst n have "list_match
          (foldl (\<lambda>l a. case a of Inl z \<Rightarrow> list_add_string l z
                                  | Inr q \<Rightarrow> list_add_string_cstr l q)
             (list_add_string [''a''] ''z'') [Inr (c_str ''b''), Inl ''c'']) (c_str ''z'') = Inr True"
    by blast
  then have d: "list_match
        (list_add_string (list_add_string_cstr (list_add_string [''a''] ''z'') (c_str ''b'')) ''c'')
        (c_str ''z'') = Inr True"
    by simp
  from n h a b c d show ?thesis by blast
qed

text \<open>
  C6 as stated fails for the \<^verbatim>\<open>std::string\<close> overload on a text with a NUL byte inside: the
  three bytes \<open>a\<close>, NUL, \<open>b\<close> are appended whole, and the list does not match them afterwards.
\<close>

theorem add_string_embedded_NUL_counterexample:
  "list_match (list_add_string [] [CHR ''a'', NUL, CHR ''b'']) (c_str [CHR ''a'', NUL, CHR ''b''])
     = Inr False"
  by (simp add: list_match_eq list_add_string_def string_of_cstr_c_str NUL_def)

subsection \<open>Diagnostic print\<close>

text \<open>
  Claim C7. The print of a matcher appends to the stream a text fixed by its payload:
  \<open>always_false\<close>, \<open>always_true\<close>, \<open>equal[v]\<close>, \<open>prefix[v]\<close>, \<open>substring[v]\<close>, \<open>regex\<close> without
  the pattern, and \<open>list[\<close> then \<open>[v]\<close> for each stored text in order then \<open>]\<close>. So
  \<open>Equal foo\<close> prints \<open>equal[foo]\<close> and the list of \<open>a\<close> and \<open>b\<close> prints \<open>list[[a][b]]\<close>.
\<close>

theorem print_formats:
  "StringMatcher_print Always_false out = out @ ''always_false''
   \<and> StringMatcher_print Always_true out = out @ ''always_true''
   \<and> StringMatcher_print (Equal v) out = out @ ''equal['' @ v @ '']''
   \<and> StringMatcher_print (Prefix v) out = out @ ''prefix['' @ v @ '']''
   \<and> StringMatcher_print (Substring v) out = out @ ''substring['' @ v @ '']''
   \<and> StringMatcher_print (Regex re) out = out @ ''regex''
   \<and> StringMatcher_print (List vs) out
       = out @ ''list['' @ concat (map (\<lambda>v. ''['' @ v @ '']'') vs) @ '']''
   \<and> StringMatcher_print (Equal ''foo'') [] = ''equal[foo]''
   \<and> StringMatcher_print (List [''a'', ''b'']) [] = ''list[[a][b]]''"
  by (simp add: StringMatcher_print_def always_false_print_def always_true_print_def
      equal_print_def prefix_print_def substring_print_def regex_print_def list_print_eq)

subsection \<open>Default and boolean construction\<close>

text \<open>
  Claim C8. The default constructor gives the always-false matcher, which matches no input.
  The constructor from a boolean gives a matcher that answers as the always-true matcher
  for \<open>True\<close> and as the always-false matcher for \<open>False\<close>: true, respectively false, for
  every input.
\<close>

theorem default_and_bool_constructors:
  "StringMatcher_default = Always_false
   \<and> StringMatcher_call_string StringMatcher_default s = Inr False
   \<and> StringMatcher_call_string (StringMatcher_of_bool True) s = Inr True
   \<and> StringMatcher_call_string (StringMatcher_of_bool False) s = Inr False
   \<and> StringMatcher_call_string (StringMatcher_of_bool True) s
       = StringMatcher_call_string Always_true s
   \<and> StringMatcher_call_string (StringMatcher_of_bool False) s
       = StringMatcher_call_string Always_false s"
  by (simp add: StringMatcher_default_def StringMatcher_of_bool_def StringMatcher_call_string_def
      StringMatcher_call_def always_false_match_def always_true_match_def)

subsection \<open>Input with a NUL byte inside\<close>

text \<open>
  Claim C9. For every matcher and every \<^verbatim>\<open>std::string\<close> input, the call gives what it gives
  on the bytes of the input before its first NUL byte: what follows a NUL byte has no
  part in the result.
\<close>

theorem call_string_reads_up_to_NUL:
  "StringMatcher_call_string m s = StringMatcher_call_string m (takeWhile (\<lambda>c. c \<noteq> NUL) s)"
  unfolding StringMatcher_call_string_def StringMatcher_call_def
  by (rule match_visitor_cong) (simp add: string_of_cstr_c_str)

subsection \<open>The empty list\<close>

text \<open>
  Claim C10. A matcher holding a list with no stored text, built from the empty sequence
  or by the default constructor of the list class, matches no input, through either
  overload of the call.
\<close>

theorem empty_list_never_matches:
  "StringMatcher_call_string (StringMatcher_of_strings []) s = Inr False
   \<and> StringMatcher_call_string (List list_default) s = Inr False
   \<and> StringMatcher_call (StringMatcher_of_strings []) p = Inr False
   \<and> StringMatcher_call (List list_default) p = Inr False"
  by (simp add: StringMatcher_of_strings_def list_of_strings_def list_default_def
      StringMatcher_call_string_def StringMatcher_call_def list_match_def)

end
